theory Spec2Isabelle
  imports Complex_Main "HOL-Library.Multiset"
begin

section \<open>Python values\<close>

text \<open>
  A Python \<open>float\<close> is an IEEE double: a real number, an infinity or NaN. The program
  never computes with a weight; it converts one with \<open>float(...)\<close> and stores it.
\<close>

datatype pyfloat = Fl real | PosInf | NegInf | NaN

text \<open>
  The objects that \<open>response.json()\<close> and \<open>pd.read_excel\<close> hand to the program.
  \<open>PyNone\<close> is Python's \<open>None\<close> (JSON \<open>null\<close>); a \<open>dict\<close> decoded from JSON has
  string keys and is kept as an association list.
\<close>

datatype pyval =
    PyNone
  | PyBool bool
  | PyInt int
  | PyFloat pyfloat
  | PyStr string
  | PyList "pyval list"
  | PyDict "(string \<times> pyval) list"

text \<open>
  The exceptions the code can meet; every one of them is a subclass of \<open>Exception\<close>.
  \<open>KeyboardInterrupt\<close> and \<open>SystemExit\<close>, which are not, come from the user and the
  interpreter, not from the service, and are not represented.
\<close>

datatype exn =
    ConnectionError
  | Timeout
  | JSONDecodeError
  | AttributeError
  | KeyError
  | IndexError
  | TypeError
  | ValueError
  | OverflowError

text \<open>
  What the builtin \<open>float\<close> makes of an \<open>int\<close> and of a \<open>str\<close> is Python's, not the
  repository's: both conversions are parameters. \<open>None\<close> stands for \<open>OverflowError\<close>
  (an int beyond the range of a double) and for \<open>ValueError\<close> (a string that is not a
  number).
\<close>

record float_conv =
  int_to_float :: "int \<Rightarrow> pyfloat option"
  str_to_float :: "string \<Rightarrow> pyfloat option"

text \<open>\<open>float(x)\<close>, by the type of \<open>x\<close>.\<close>

fun py_float :: "float_conv \<Rightarrow> pyval \<Rightarrow> exn + pyfloat" where
  "py_float fc PyNone = Inl TypeError"
| "py_float fc (PyBool b) = Inr (Fl (if b then 1 else 0))"
| "py_float fc (PyInt n) =
     (case int_to_float fc n of None \<Rightarrow> Inl OverflowError | Some f \<Rightarrow> Inr f)"
| "py_float fc (PyFloat f) = Inr f"
| "py_float fc (PyStr s) =
     (case str_to_float fc s of None \<Rightarrow> Inl ValueError | Some f \<Rightarrow> Inr f)"
| "py_float fc (PyList xs) = Inl TypeError"
| "py_float fc (PyDict d) = Inl TypeError"

text \<open>Truth value of an object, as \<open>if properties:\<close> tests it.\<close>

fun truthy :: "pyval \<Rightarrow> bool" where
  "truthy PyNone = False"
| "truthy (PyBool b) = b"
| "truthy (PyInt n) = (n \<noteq> 0)"
| "truthy (PyFloat f) = (f \<noteq> Fl 0)"
| "truthy (PyStr s) = (s \<noteq> [])"
| "truthy (PyList xs) = (xs \<noteq> [])"
| "truthy (PyDict d) = (d \<noteq> [])"

text \<open>
  \<open>x.get(key, default)\<close>: only a \<open>dict\<close> has the method, any other object raises
  \<open>AttributeError\<close>. A key that is present with the value \<open>None\<close> yields \<open>None\<close>, not the
  default.
\<close>

fun py_get :: "pyval \<Rightarrow> string \<Rightarrow> pyval \<Rightarrow> exn + pyval" where
  "py_get (PyDict d) key dflt = Inr (case map_of d key of None \<Rightarrow> dflt | Some v \<Rightarrow> v)"
| "py_get x key dflt = Inl AttributeError"

text \<open>
  \<open>x[0]\<close>. The keys of a decoded \<open>dict\<close> are strings, so the integer key \<open>0\<close> is
  never among them.
\<close>

fun py_first :: "pyval \<Rightarrow> exn + pyval" where
  "py_first (PyList (x # xs)) = Inr x"
| "py_first (PyList []) = Inl IndexError"
| "py_first (PyStr (c # cs)) = Inr (PyStr [c])"
| "py_first (PyStr []) = Inl IndexError"
| "py_first (PyDict d) = Inl KeyError"
| "py_first x = Inl TypeError"

section \<open>The remote lookup service\<close>

text \<open>
  One \<open>requests.get(url, timeout=10)\<close> either raises (no connection, timeout) or
  returns a response with a status code and a body; \<open>response.json()\<close> raises on a body
  that is not JSON (\<open>None\<close> here).
\<close>

datatype http_outcome =
    Raises exn
  | Response int "pyval option"

type_synonym property_result = "pyval \<times> pyval"

definition absent :: property_result where
  "absent = (PyNone, PyNone)"

text \<open>How the body of one iteration of a loop ends.\<close>

datatype 'a flow = Return 'a | Fallthrough | Raise exn

definition url_of :: "string \<Rightarrow> string" where
  "url_of cas =
     ''https://pubchem.ncbi.nlm.nih.gov/rest/pug/compound/name/'' @ cas @
     ''/property/MolecularFormula,MolecularWeight/JSON''"

text \<open>
  Lines 61 to 67 of \<open>fetch_cas_info\<close>: from the outcome of the request to
  \<open>prop = properties[0]\<close>.
\<close>

definition first_record :: "http_outcome \<Rightarrow> pyval flow" where
  "first_record out =
     (case out of
        Raises e \<Rightarrow> Raise e
      | Response status_code body \<Rightarrow>
          if status_code = 200 then
            (case body of
               None \<Rightarrow> Raise JSONDecodeError
             | Some data \<Rightarrow>
                 (case py_get data ''PropertyTable'' (PyDict []) of
                    Inl e \<Rightarrow> Raise e
                  | Inr table \<Rightarrow>
                      (case py_get table ''Properties'' (PyList []) of
                         Inl e \<Rightarrow> Raise e
                       | Inr properties \<Rightarrow>
                           if truthy properties then
                             (case py_first properties of
                                Inl e \<Rightarrow> Raise e
                              | Inr prop \<Rightarrow> Return prop)
                           else Fallthrough)))
          else Fallthrough)"

text \<open>
  Lines 68 to 75: the formula, the raw weight and its conversion. The inner \<open>try\<close>
  catches \<open>TypeError\<close> and \<open>ValueError\<close> only; any other exception of \<open>float\<close>
  leaves it.
\<close>

definition read_record :: "float_conv \<Rightarrow> pyval \<Rightarrow> property_result flow" where
  "read_record fc prop =
     (case py_get prop ''MolecularFormula'' PyNone of
        Inl e \<Rightarrow> Raise e
      | Inr formula \<Rightarrow>
          (case py_get prop ''MolecularWeight'' PyNone of
             Inl e \<Rightarrow> Raise e
           | Inr weight_raw \<Rightarrow>
               (case py_float fc weight_raw of
                  Inr w \<Rightarrow> Return (formula, PyFloat w)
                | Inl e \<Rightarrow>
                    if e = TypeError \<or> e = ValueError then Return (formula, PyNone)
                    else Raise e)))"

text \<open>The body of the \<open>try\<close> of one attempt.\<close>

definition attempt :: "float_conv \<Rightarrow> http_outcome \<Rightarrow> property_result flow" where
  "attempt fc out =
     (case first_record out of
        Return prop \<Rightarrow> read_record fc prop
      | Fallthrough \<Rightarrow> Fallthrough
      | Raise e \<Rightarrow> Raise e)"

text \<open>An attempt fails when its body does not reach \<open>return formula, weight\<close>.\<close>

definition failed :: "float_conv \<Rightarrow> http_outcome \<Rightarrow> bool" where
  "failed fc out = (case attempt fc out of Return r \<Rightarrow> False | Fallthrough \<Rightarrow> True | Raise e \<Rightarrow> True)"

text \<open>
  \<open>for _ in range(3)\<close>: \<open>n\<close> iterations are left, \<open>k\<close> requests have been sent.
  \<open>answers k\<close> is the outcome of the request number \<open>k\<close> of this call. The result comes
  with the requests sent, in order. \<open>except Exception: pass\<close> goes on to the next
  iteration, as the end of the body does.
\<close>

fun retry :: "float_conv \<Rightarrow> (nat \<Rightarrow> http_outcome) \<Rightarrow> string \<Rightarrow> nat \<Rightarrow> nat
    \<Rightarrow> (exn + property_result) \<times> string list" where
  "retry fc answers url 0 k = (Inr (PyNone, PyNone), [])"
| "retry fc answers url (Suc n) k =
     (case attempt fc (answers k) of
        Return r \<Rightarrow> (Inr r, [url])
      | Fallthrough \<Rightarrow> (case retry fc answers url n (Suc k) of (res, sent) \<Rightarrow> (res, url # sent))
      | Raise e \<Rightarrow> (case retry fc answers url n (Suc k) of (res, sent) \<Rightarrow> (res, url # sent)))"

text \<open>
  \<open>fetch_cas_info(cas, manual_data)\<close>. \<open>net url k\<close> is what the service answers to the
  request number \<open>k\<close> that this call sends to \<open>url\<close>. Outside the \<open>try\<close> of the loop
  there are the membership test, the lookup of a key just found and the f-string, all on
  a \<open>str\<close>: none of them raises.
\<close>

definition fetch_cas_info :: "float_conv \<Rightarrow> (string \<Rightarrow> nat \<Rightarrow> http_outcome) \<Rightarrow> string
    \<Rightarrow> (string \<rightharpoonup> property_result) \<Rightarrow> (exn + property_result) \<times> string list" where
  "fetch_cas_info fc net cas manual_data =
     (case manual_data cas of
        Some entry \<Rightarrow> (Inr entry, [])
      | None \<Rightarrow> retry fc (net (url_of cas)) (url_of cas) 3 0)"

section \<open>The spreadsheet\<close>

text \<open>
  The dataframe that \<open>pd.read_excel\<close> returns: its columns in order, each a name and
  its cells (in pandas all columns have as many cells as the frame has rows).
  \<open>df.empty\<close> holds when the frame has no column or no row.
\<close>

type_synonym dataframe = "(string \<times> pyval list) list"

definition df_empty :: "dataframe \<Rightarrow> bool" where
  "df_empty df = (case df of [] \<Rightarrow> True | (name, cells) # rest \<Rightarrow> cells = [])"

fun get_column :: "dataframe \<Rightarrow> string \<Rightarrow> pyval list option" where
  "get_column [] name = None"
| "get_column ((k, cells) # rest) name = (if k = name then Some cells else get_column rest name)"

text \<open>
  \<open>df[name] = values\<close>: a column of that name is replaced, otherwise one is added. The
  cells of the column are the objects of the list (how pandas stores a missing number is
  not represented).
\<close>

fun set_column :: "string \<Rightarrow> pyval list \<Rightarrow> dataframe \<Rightarrow> dataframe" where
  "set_column name vals [] = [(name, vals)]"
| "set_column name vals ((k, cells) # rest) =
     (if k = name then (k, vals) # rest else (k, cells) # set_column name vals rest)"

text \<open>The names of the two added columns, as the bytes of their UTF-8 encoding.\<close>

definition col_formula :: string where
  "col_formula =
     [CHR 0xE7, CHR 0xA4, CHR 0xBA, CHR 0xE6, CHR 0x80, CHR 0xA7, CHR 0xE5, CHR 0xBC, CHR 0x8F]"

definition col_weight :: string where
  "col_weight =
     [CHR 0xE5, CHR 0x88, CHR 0x86, CHR 0xE5, CHR 0xAD, CHR 0x90, CHR 0xE9, CHR 0x87, CHR 0x8F]"

text \<open>
  \<open>.astype(str)\<close> leaves a text cell as it is. What it makes of any other cell is
  pandas's, a parameter here: the text of the cell, or \<open>None\<close> when the cell is still
  missing afterwards. \<open>.fillna("")\<close> then replaces what is missing.
\<close>

definition astype_str :: "(pyval \<Rightarrow> string option) \<Rightarrow> pyval \<Rightarrow> string option" where
  "astype_str conv cell = (case cell of PyStr s \<Rightarrow> Some s | _ \<Rightarrow> conv cell)"

definition fillna :: "string \<Rightarrow> string option \<Rightarrow> string" where
  "fillna filler x = (case x of None \<Rightarrow> filler | Some s \<Rightarrow> s)"

text \<open>Line 99: \<open>df.iloc[:, 0].astype(str).fillna("")\<close>, on the cells of the first column.\<close>

definition cas_series :: "(pyval \<Rightarrow> string option) \<Rightarrow> pyval list \<Rightarrow> string list" where
  "cas_series conv cells = map (\<lambda>cell. fillna [] (astype_str conv cell)) cells"

section \<open>The batch\<close>

definition manual_data :: "string \<rightharpoonup> property_result" where
  "manual_data = map_of
     [(''77536-66-4'', (PyStr ''Ca2Fe5H2O24Si8'', PyFloat (Fl 970.1))),
      (''77536-67-5'', (PyStr ''H2Mg7O24Si8'', PyFloat (Fl 780.82))),
      (''77536-68-6'', (PyStr ''Ca2H2Mg5O24Si8'', PyFloat (Fl 812.37))),
      (''13768-00-8'', (PyStr ''Fe2H16Mg3Na2O24Si8+14'', PyFloat (Fl 855.38))),
      (''17068-78-9'', (PyStr ''Fe7H2O24Si8'', PyFloat (Fl 1001.6))),
      (''12172-67-7'', (PyStr ''Ca2Fe5H2O24Si8'', PyFloat (Fl 970.1))),
      (''12172-73-5'', (PyStr ''Fe7H2O24Si8'', PyFloat (Fl 1001.6))),
      (''12001-28-4'', (PyStr ''Fe2H16Mg3Na2O24Si8+14'', PyFloat (Fl 855.38))),
      (''12001-29-5'', (PyStr ''H4Mg3O9Si2'', PyFloat (Fl 277.11))),
      (''1332-21-4'', (PyNone, PyNone)),
      (''132207-32-0'', (PyStr ''Ca2H2Mg5O24Si8'', PyFloat (Fl 812.37))),
      (''132207-33-1'', (PyStr ''Fe2H16Mg3Na2O24Si8+14'', PyFloat (Fl 855.38))),
      (''14567-73-8'', (PyStr ''H4Mg3O9Si2'', PyFloat (Fl 277.11))),
      (''12185-10-3'', (PyStr ''P4'', PyFloat (Fl 123.8950480))),
      (''25512-42-9'', (PyStr ''C12H8Cl2'', PyFloat (Fl 223.09792)))]"

text \<open>
  What a run of \<open>process_file\<close> depends on besides the file: the two library
  conversions, the answers of the service (\<open>service idx url k\<close> answers the request
  number \<open>k\<close> of the task of row \<open>idx\<close>), and the time at which each task finishes,
  which decides the order of \<open>as_completed\<close>.
\<close>

record env =
  cell_str :: "pyval \<Rightarrow> string option"
  floats :: float_conv
  service :: "nat \<Rightarrow> string \<Rightarrow> nat \<Rightarrow> http_outcome"
  finished_at :: "nat \<Rightarrow> nat"

text \<open>
  Lines 128 to 133: one future per row whose identifier is not the empty string,
  \<open>future_to_index\<close> in the order of submission.
\<close>

fun submit_loop :: "nat \<Rightarrow> string list \<Rightarrow> (nat \<times> string) list" where
  "submit_loop idx [] = []"
| "submit_loop idx (cas # rest) =
     (if cas = [] then submit_loop (Suc idx) rest
      else (idx, cas) # submit_loop (Suc idx) rest)"

text \<open>What the worker does with a submitted task: \<open>fetch_cas_info(cas, manual_data)\<close>.\<close>

definition run_task :: "env \<Rightarrow> nat \<times> string \<Rightarrow> (exn + property_result) \<times> string list" where
  "run_task e task =
     (case task of (idx, cas) \<Rightarrow> fetch_cas_info (floats e) (service e idx) cas manual_data)"

text \<open>\<open>as_completed\<close> yields the futures in the order in which their tasks finish.\<close>

definition as_completed :: "env \<Rightarrow> (nat \<times> string) list \<Rightarrow> (nat \<times> string) list" where
  "as_completed e tasks = sort_key (\<lambda>task. finished_at e (fst task)) tasks"

text \<open>
  Lines 137 to 140: \<open>future.result()\<close> gives the task's value or raises the task's
  exception, which becomes \<open>(None, None)\<close>.
\<close>

definition future_result :: "exn + property_result \<Rightarrow> property_result" where
  "future_result res = (case res of Inr r \<Rightarrow> r | Inl e \<Rightarrow> (PyNone, PyNone))"

text \<open>Lines 135 to 142: each completed future overwrites the slot of its row.\<close>

fun record_results :: "(nat \<times> (exn + property_result)) list \<Rightarrow> pyval list \<times> pyval list
    \<Rightarrow> pyval list \<times> pyval list" where
  "record_results [] (formulas, weights) = (formulas, weights)"
| "record_results ((idx, res) # rest) (formulas, weights) =
     (case future_result res of
        (formula, weight) \<Rightarrow>
          record_results rest (formulas[idx := formula], weights[idx := weight]))"

text \<open>
  A run returns the frame and leaves two traces: the tasks submitted to the pool, and
  the requests sent, each with the row of its task. The requests of one task are in the
  order in which it sent them; how the requests of different tasks interleave in time is
  not represented.
\<close>

record run =
  frame :: dataframe
  submitted :: "(nat \<times> string) list"
  requests :: "(nat \<times> string) list"

text \<open>Lines 121 to 142: the two lists, first all \<open>None\<close>, after every task has completed.\<close>

definition slots :: "env \<Rightarrow> string list \<Rightarrow> pyval list \<times> pyval list" where
  "slots e cas_list =
     record_results
       (map (\<lambda>task. (fst task, fst (run_task e task))) (as_completed e (submit_loop 0 cas_list)))
       (replicate (length cas_list) PyNone, replicate (length cas_list) PyNone)"

text \<open>
  \<open>process_file\<close>, from the frame that \<open>pd.read_excel(file)\<close> has read. The branch
  \<open>IndexError\<close> is \<open>df.iloc[:, 0]\<close> on a frame without a column.
\<close>

definition process_file :: "env \<Rightarrow> dataframe \<Rightarrow> exn + run" where
  "process_file e df =
     (if df_empty df then Inr \<lparr>frame = df, submitted = [], requests = []\<rparr>
      else
        (case df of
           [] \<Rightarrow> Inl IndexError
         | (name, cells) # rest \<Rightarrow>
             (case slots e (cas_series (cell_str e) cells) of
                (formulas, weights) \<Rightarrow>
                  Inr \<lparr>frame = set_column col_weight weights (set_column col_formula formulas df),
                       submitted = submit_loop 0 (cas_series (cell_str e) cells),
                       requests =
                         concat (map (\<lambda>task. map (Pair (fst task)) (snd (run_task e task)))
                           (submit_loop 0 (cas_series (cell_str e) cells)))\<rparr>)))"

section \<open>Example inputs\<close>

text \<open>Conversions for the examples: every int has a double, one string is a number.\<close>

definition demo_int_to_float :: "int \<Rightarrow> pyfloat option" where
  "demo_int_to_float n = Some (Fl (of_int n))"

definition demo_str_to_float :: "string \<Rightarrow> pyfloat option" where
  "demo_str_to_float s = (if s = ''18.015'' then Some (Fl 18.015) else None)"

definition demo_floats :: float_conv where
  "demo_floats = \<lparr>int_to_float = demo_int_to_float, str_to_float = demo_str_to_float\<rparr>"

text \<open>A service that is down, and one that knows water but not its weight.\<close>

definition service_down :: "string \<Rightarrow> nat \<Rightarrow> http_outcome" where
  "service_down url k = Raises Timeout"




text \<open>A run in which every non-text cell reads \<open>nan\<close> and the service is down.\<close>

definition demo_cell_str :: "pyval \<Rightarrow> string option" where
  "demo_cell_str cell = Some ''nan''"

definition demo_service :: "nat \<Rightarrow> string \<Rightarrow> nat \<Rightarrow> http_outcome" where
  "demo_service idx = service_down"

definition demo_finished_at :: "nat \<Rightarrow> nat" where
  "demo_finished_at idx = 10 - idx"

definition demo_env :: env where
  "demo_env = \<lparr>cell_str = demo_cell_str, floats = demo_floats, service = demo_service,
     finished_at = demo_finished_at\<rparr>"

definition header_only :: dataframe where
  "header_only = [(''CAS No.'', [])]"

definition demo_cells :: "pyval list" where
  "demo_cells = [PyStr ''77536-66-4'', PyStr [], PyStr ''0000-00-0'']"

definition demo_sheet :: dataframe where
  "demo_sheet = [(''CAS No.'', demo_cells)]"

section \<open>The retry loop\<close>

lemma failed_iff: "failed fc out \<longleftrightarrow> (\<forall>r. attempt fc out \<noteq> Return r)"
  by (simp add: failed_def split: flow.splits)

lemma retry_all_fail:
  "(\<And>j. j < n \<Longrightarrow> \<forall>r. attempt fc (answers (k + j)) \<noteq> Return r)
   \<Longrightarrow> retry fc answers url n k = (Inr (PyNone, PyNone), replicate n url)"
proof (induction n arbitrary: k)
  case 0
  then show ?case by simp
next
  case (Suc n)
  have first: "\<forall>r. attempt fc (answers k) \<noteq> Return r"
    using Suc.prems [of 0] by simp
  have rest: "retry fc answers url n (Suc k) = (Inr (PyNone, PyNone), replicate n url)"
  proof (rule Suc.IH)
    fix j assume "j < n"
    then show "\<forall>r. attempt fc (answers (Suc k + j)) \<noteq> Return r"
      using Suc.prems [of "Suc j"] by simp
  qed
  show ?case
    using first rest by (cases "attempt fc (answers k)") simp_all
qed


lemma retry_returns: "\<exists>r sent. retry fc answers url n k = (Inr r, sent)"
proof (induction n arbitrary: k)
  case 0
  then show ?case by simp
next
  case (Suc n)
  obtain r sent where "retry fc answers url n (Suc k) = (Inr r, sent)"
    using Suc.IH by blast
  then show ?case by (cases "attempt fc (answers k)") simp_all
qed

lemma retry_sent_bound: "length (snd (retry fc answers url n k)) \<le> n"
proof (induction n arbitrary: k)
  case 0
  then show ?case by simp
next
  case (Suc n)
  have "length (snd (retry fc answers url n (Suc k))) \<le> n" by (rule Suc.IH)
  then show ?case
    by (cases "attempt fc (answers k)") (auto split: prod.splits)
qed

section \<open>Submission and collection\<close>

lemma submit_loop_set:
  "(i, c) \<in> set (submit_loop k xs) \<longleftrightarrow> k \<le> i \<and> i < k + length xs \<and> c = xs ! (i - k) \<and> c \<noteq> []"
proof (induction xs arbitrary: k)
  case Nil
  then show ?case by simp
next
  case (Cons x xs)
  show ?case
  proof (cases "i = k")
    case True
    then show ?thesis using Cons.IH [of "Suc k"] by auto
  next
    case False
    then have "xs ! (i - Suc k) = (x # xs) ! (i - k)" if "k \<le> i"
      using that False by (simp add: nth_Cons')
    then show ?thesis using False Cons.IH [of "Suc k"] by auto
  qed
qed

lemma submit_loop_fst_ge: "t \<in> set (submit_loop k xs) \<Longrightarrow> k \<le> fst t"
  using submit_loop_set [of "fst t" "snd t" k xs] by simp

lemma submit_loop_distinct: "distinct (map fst (submit_loop k xs))"
proof (induction xs arbitrary: k)
  case Nil
  then show ?case by simp
next
  case (Cons x xs)
  have "k \<notin> fst ` set (submit_loop (Suc k) xs)"
    using submit_loop_fst_ge [of _ "Suc k" xs] by fastforce
  then show ?case using Cons.IH [of "Suc k"] by simp
qed

lemma record_results_length:
  "length (fst (record_results ups (fs, ws))) = length fs \<and>
   length (snd (record_results ups (fs, ws))) = length ws"
  by (induction ups arbitrary: fs ws) (auto split: prod.splits sum.splits)

lemma record_results_nth:
  "distinct (map fst ups) \<Longrightarrow> j < length fs \<Longrightarrow> j < length ws \<Longrightarrow>
   fst (record_results ups (fs, ws)) ! j =
     (case map_of ups j of None \<Rightarrow> fs ! j | Some res \<Rightarrow> fst (future_result res)) \<and>
   snd (record_results ups (fs, ws)) ! j =
     (case map_of ups j of None \<Rightarrow> ws ! j | Some res \<Rightarrow> snd (future_result res))"
proof (induction ups arbitrary: fs ws)
  case Nil
  then show ?case by simp
next
  case (Cons u ups)
  obtain i res where u: "u = (i, res)" by (cases u)
  obtain f w where v: "future_result res = (f, w)" by (cases "future_result res")
  have step: "record_results (u # ups) (fs, ws) = record_results ups (fs[i := f], ws[i := w])"
    using u v by simp
  have d: "distinct (map fst ups)" and fresh: "map_of ups i = None"
    using Cons.prems(1) u by (auto simp: map_of_eq_None_iff)
  have ih: "fst (record_results ups (fs[i := f], ws[i := w])) ! j =
      (case map_of ups j of None \<Rightarrow> fs[i := f] ! j | Some res \<Rightarrow> fst (future_result res)) \<and>
    snd (record_results ups (fs[i := f], ws[i := w])) ! j =
      (case map_of ups j of None \<Rightarrow> ws[i := w] ! j | Some res \<Rightarrow> snd (future_result res))"
    using Cons.IH [OF d, of "fs[i := f]" "ws[i := w]"] Cons.prems(2,3) by simp
  show ?case
  proof (cases "j = i")
    case True
    then show ?thesis
      unfolding step using ih fresh u v Cons.prems(2,3) by simp
  next
    case False
    then show ?thesis
      unfolding step using ih u by (simp split: option.splits)
  qed
qed


lemma as_completed_set: "set (as_completed e tasks) = set tasks"
  by (simp add: as_completed_def)

lemma as_completed_distinct:
  "distinct (map fst tasks) \<Longrightarrow> distinct (map fst (as_completed e tasks))"
proof -
  assume d: "distinct (map fst tasks)"
  have "mset (map fst (as_completed e tasks)) = mset (map fst tasks)"
    by (simp add: as_completed_def)
  then show ?thesis using d by (metis mset_eq_imp_distinct_iff)
qed

lemma completed_distinct:
  "distinct (map fst (map (\<lambda>task. (fst task, fst (run_task e task)))
     (as_completed e (submit_loop 0 cs))))"
proof -
  have eq: "map fst (map (\<lambda>task. (fst task, fst (run_task e task)))
      (as_completed e (submit_loop 0 cs))) = map fst (as_completed e (submit_loop 0 cs))"
    by (simp add: comp_def)
  show ?thesis
    unfolding eq by (rule as_completed_distinct [OF submit_loop_distinct])
qed

lemma completed_lookup:
  assumes "i < length cs"
  shows "map_of (map (\<lambda>task. (fst task, fst (run_task e task))) (as_completed e (submit_loop 0 cs))) i =
     (if cs ! i = [] then None else Some (fst (run_task e (i, cs ! i))))"
proof (cases "cs ! i = []")
  case True
  have "i \<notin> fst ` set (submit_loop 0 cs)"
  proof
    assume "i \<in> fst ` set (submit_loop 0 cs)"
    then obtain c where "(i, c) \<in> set (submit_loop 0 cs)" by auto
    then show False using True by (simp add: submit_loop_set)
  qed
  then show ?thesis
    using True by (simp add: map_of_eq_None_iff as_completed_set image_image)
next
  case False
  let ?done = "map (\<lambda>task. (fst task, fst (run_task e task))) (as_completed e (submit_loop 0 cs))"
  have "(i, cs ! i) \<in> set (as_completed e (submit_loop 0 cs))"
    using False assms by (simp add: as_completed_set submit_loop_set)
  then have mem: "(i, fst (run_task e (i, cs ! i))) \<in> set ?done"
    by force
  have "distinct (map fst ?done)"
    by (rule completed_distinct)
  then have "map_of ?done i = Some (fst (run_task e (i, cs ! i)))"
    using mem by (rule map_of_is_SomeI)
  then show ?thesis using False by simp
qed

lemma slots_length:
  "length (fst (slots e cs)) = length cs \<and> length (snd (slots e cs)) = length cs"
  unfolding slots_def using record_results_length [of _ "replicate (length cs) PyNone" "replicate (length cs) PyNone"]
  by simp

lemma slots_nth:
  assumes "i < length cs"
  shows "(fst (slots e cs) ! i, snd (slots e cs) ! i) =
     (if cs ! i = [] then (PyNone, PyNone) else future_result (fst (run_task e (i, cs ! i))))"
proof -
  let ?done = "map (\<lambda>task. (fst task, fst (run_task e task))) (as_completed e (submit_loop 0 cs))"
  have d: "distinct (map fst ?done)"
    by (rule completed_distinct)
  have n: "i < length (replicate (length cs) PyNone)" using assms by simp
  show ?thesis
    unfolding slots_def
    using record_results_nth [OF d n n] completed_lookup [OF assms, of e] assms
    by simp
qed

section \<open>The returned frame\<close>

lemma get_set_column_same: "get_column (set_column name vals df) name = Some vals"
  by (induction df) auto

lemma get_set_column_other:
  "name \<noteq> other \<Longrightarrow> get_column (set_column name vals df) other = get_column df other"
  by (induction df) auto

lemma col_names_differ: "col_weight \<noteq> col_formula"
  by (simp add: col_weight_def col_formula_def)

lemma process_file_nonempty:
  assumes "\<not> df_empty df"
  shows "\<exists>name cells rest. df = (name, cells) # rest \<and> cells \<noteq> [] \<and>
    process_file e df = Inr \<lparr>frame = set_column col_weight (snd (slots e (cas_series (cell_str e) cells)))
             (set_column col_formula (fst (slots e (cas_series (cell_str e) cells))) df),
         submitted = submit_loop 0 (cas_series (cell_str e) cells),
         requests = concat (map (\<lambda>task. map (Pair (fst task)) (snd (run_task e task)))
                           (submit_loop 0 (cas_series (cell_str e) cells)))\<rparr>"
proof -
  obtain name cells rest where df: "df = (name, cells) # rest" and ne: "cells \<noteq> []"
    using assms by (auto simp: df_empty_def split: list.splits)
  show ?thesis
    using df ne by (simp add: process_file_def df_empty_def split: prod.splits)
qed

section \<open>The override table\<close>

text \<open>
  C1. An identifier that is a key of the table passed to \<open>fetch_cas_info\<close> resolves to
  exactly the stored pair, and no request is sent to the service, whatever the stored
  pair is (the entry \<open>1332-21-4\<close> of the table of \<open>process_file\<close> stores
  \<open>(None, None)\<close>).
\<close>

theorem override_hit_returns_entry:
  "table cas = Some entry \<Longrightarrow> fetch_cas_info fc net cas table = (Inr entry, [])"
  by (simp add: fetch_cas_info_def)

theorem override_hit_returns_entry_witness:
  "manual_data ''1332-21-4'' = Some (PyNone, PyNone) \<and>
   fetch_cas_info demo_floats service_down ''1332-21-4'' manual_data = (Inr (PyNone, PyNone), [])"
proof -
  have hit: "manual_data ''1332-21-4'' = Some (PyNone, PyNone)"
    by (simp add: manual_data_def)
  show ?thesis
    using hit
      override_hit_returns_entry [of manual_data "''1332-21-4''" "(PyNone, PyNone)"
        demo_floats service_down]
    by simp
qed

section \<open>Failed attempts\<close>

lemma failed_raises: "failed fc (Raises e)"
  by (simp add: failed_def attempt_def first_record_def)

lemma failed_status: "status_code \<noteq> 200 \<Longrightarrow> failed fc (Response status_code body)"
  by (simp add: failed_def attempt_def first_record_def)

lemma failed_not_json: "failed fc (Response 200 None)"
  by (simp add: failed_def attempt_def first_record_def)

lemma failed_no_records:
  "py_get data ''PropertyTable'' (PyDict []) = Inr table \<Longrightarrow>
   py_get table ''Properties'' (PyList []) = Inr properties \<Longrightarrow> \<not> truthy properties \<Longrightarrow>
   failed fc (Response 200 (Some data))"
  by (simp add: failed_def attempt_def first_record_def)

section \<open>Exhausted retries\<close>

text \<open>
  C3. For an identifier that is not a key of the table, when each of the three attempts
  fails, \<open>fetch_cas_info\<close> returns \<open>(None, None)\<close> and has sent exactly three requests,
  all to the URL of that identifier.
\<close>

theorem all_attempts_fail:
  assumes miss: "table cas = None"
    and fails: "\<And>k. k < 3 \<Longrightarrow> failed fc (net (url_of cas) k)"
  shows "fetch_cas_info fc net cas table =
    (Inr absent, [url_of cas, url_of cas, url_of cas])"
proof -
  have "retry fc (net (url_of cas)) (url_of cas) 3 0 =
      (Inr (PyNone, PyNone), replicate 3 (url_of cas))"
    by (rule retry_all_fail) (use fails in \<open>simp add: failed_iff\<close>)
  then show ?thesis
    using miss by (simp add: fetch_cas_info_def absent_def numeral_3_eq_3)
qed

theorem all_attempts_fail_witness:
  "manual_data ''0000-00-0'' = None \<and>
   failed demo_floats (service_down (url_of ''0000-00-0'') 0) \<and>
   failed demo_floats (service_down (url_of ''0000-00-0'') 1) \<and>
   failed demo_floats (service_down (url_of ''0000-00-0'') 2) \<and>
   fetch_cas_info demo_floats service_down ''0000-00-0'' manual_data =
     (Inr (PyNone, PyNone), [url_of ''0000-00-0'', url_of ''0000-00-0'', url_of ''0000-00-0''])"
proof -
  have miss: "manual_data ''0000-00-0'' = None"
    by (simp add: manual_data_def)
  have down: "failed demo_floats (service_down (url_of ''0000-00-0'') k)" for k
    by (simp add: service_down_def failed_raises)
  show ?thesis
    using miss down
      all_attempts_fail [of manual_data "''0000-00-0''" demo_floats service_down]
    by (simp add: absent_def)
qed

section \<open>What \<open>float\<close> rejects\<close>

lemma py_float_TypeError:
  "py_float fc w = Inl TypeError \<longleftrightarrow> w = PyNone \<or> (\<exists>xs. w = PyList xs) \<or> (\<exists>d. w = PyDict d)"
  by (cases w) (auto split: option.splits)

lemma py_float_ValueError:
  "py_float fc w = Inl ValueError \<longleftrightarrow> (\<exists>s. w = PyStr s \<and> str_to_float fc s = None)"
  by (cases w) (auto split: option.splits)

lemma py_float_OverflowError:
  "py_float fc w = Inl OverflowError \<longleftrightarrow> (\<exists>n. w = PyInt n \<and> int_to_float fc n = None)"
  by (cases w) (auto split: option.splits)

text \<open>
  An int too large for a double is neither: \<open>OverflowError\<close> passes the inner handler
  and the attempt fails.
\<close>

lemma overflow_fails_attempt:
  assumes "first_record out = Return (PyDict record)"
    and "map_of record ''MolecularWeight'' = Some (PyInt n)"
    and "int_to_float fc n = None"
  shows "attempt fc out = Raise OverflowError" and "failed fc out"
  using assms by (simp_all add: failed_def attempt_def read_record_def)

section \<open>A weight that is not a number\<close>




lemma fetch_cas_info_returns: "\<exists>r sent. fetch_cas_info fc net cas table = (Inr r, sent)"
  using retry_returns [of fc "net (url_of cas)" "url_of cas" 3 0]
  by (cases "table cas") (simp_all add: fetch_cas_info_def)

lemma fetch_cas_info_at_most_three: "length (snd (fetch_cas_info fc net cas table)) \<le> 3"
  using retry_sent_bound [of fc "net (url_of cas)" "url_of cas" 3 0]
  by (cases "table cas") (simp_all add: fetch_cas_info_def)

lemma run_task_returns: "\<exists>r sent. run_task e task = (Inr r, sent)"
  using fetch_cas_info_returns by (cases task) (simp add: run_task_def)

lemma process_file_returns: "\<exists>out. process_file e df = Inr out"
proof (cases "df_empty df")
  case True
  then show ?thesis by (simp add: process_file_def)
next
  case False
  then show ?thesis using process_file_nonempty [of df e] by blast
qed

section \<open>No exception leaves the resolver\<close>

text \<open>
  C6. Whatever the service answers, \<open>fetch_cas_info\<close> returns a pair and raises nothing.
  A transport error or timeout, a status other than 200, a body that is not JSON and an
  empty list of records each make the attempt fail; when all three attempts fail the pair
  is \<open>(None, None)\<close>. Every task of the pool therefore ends with a value, and
  \<open>process_file\<close> returns.
\<close>

theorem resolver_never_raises:
  "(\<exists>r sent. fetch_cas_info fc net cas table = (Inr r, sent)) \<and>
   failed fc (Raises x) \<and>
   (status_code \<noteq> 200 \<longrightarrow> failed fc (Response status_code body)) \<and>
   failed fc (Response 200 None) \<and>
   failed fc (Response 200 (Some (PyDict [(''PropertyTable'', PyDict [(''Properties'', PyList [])])]))) \<and>
   (table cas = None \<and> failed fc (net (url_of cas) 0) \<and> failed fc (net (url_of cas) 1) \<and>
      failed fc (net (url_of cas) 2) \<longrightarrow> fst (fetch_cas_info fc net cas table) = Inr absent) \<and>
   (\<exists>r sent. run_task e task = (Inr r, sent)) \<and>
   (\<exists>out. process_file e df = Inr out)"
proof -
  have degrade: "fst (fetch_cas_info fc net cas table) = Inr absent"
    if miss: "table cas = None" and f0: "failed fc (net (url_of cas) 0)"
      and f1: "failed fc (net (url_of cas) 1)" and f2: "failed fc (net (url_of cas) 2)"
  proof -
    have "\<forall>r. attempt fc (net (url_of cas) (0 + j)) \<noteq> Return r" if "j < 3" for j
    proof -
      have "j = 0 \<or> j = 1 \<or> j = 2" using that by arith
      then show ?thesis using f0 f1 f2 by (auto simp: failed_iff)
    qed
    then have "retry fc (net (url_of cas)) (url_of cas) 3 0 =
        (Inr (PyNone, PyNone), replicate 3 (url_of cas))"
      by (rule retry_all_fail)
    then show ?thesis using miss by (simp add: fetch_cas_info_def absent_def)
  qed
  have empty_list: "failed fc (Response 200 (Some (PyDict [(''PropertyTable'', PyDict [(''Properties'', PyList [])])])))"
    by (simp add: failed_def attempt_def first_record_def)
  show ?thesis
    using fetch_cas_info_returns [of fc net cas table] failed_raises [of fc x]
      failed_status [of status_code fc body] failed_not_json [of fc] empty_list degrade
      run_task_returns [of e task] process_file_returns [of e df]
    by blast
qed

theorem resolver_never_raises_witness:
  "(\<exists>r sent. fetch_cas_info demo_floats service_down ''0000-00-0'' manual_data = (Inr r, sent)) \<and>
   failed demo_floats (Raises ConnectionError) \<and>
   (404::int) \<noteq> 200 \<and> failed demo_floats (Response 404 None) \<and>
   failed demo_floats (Response 200 None) \<and>
   manual_data ''0000-00-0'' = None \<and>
   failed demo_floats (service_down (url_of ''0000-00-0'') 0) \<and>
   failed demo_floats (service_down (url_of ''0000-00-0'') 1) \<and>
   failed demo_floats (service_down (url_of ''0000-00-0'') 2) \<and>
   fst (fetch_cas_info demo_floats service_down ''0000-00-0'' manual_data) = Inr (PyNone, PyNone) \<and>
   (\<exists>r sent. run_task demo_env (2, ''0000-00-0'') = (Inr r, sent)) \<and>
   (\<exists>out. process_file demo_env demo_sheet = Inr out)"
proof -
  have miss: "manual_data ''0000-00-0'' = None"
    by (simp add: manual_data_def)
  have down: "failed demo_floats (service_down (url_of ''0000-00-0'') k)" for k
    by (simp add: service_down_def failed_def attempt_def first_record_def)
  show ?thesis
    using miss down
      resolver_never_raises [of demo_floats service_down "''0000-00-0''" manual_data
        ConnectionError 404 None demo_env "(2, ''0000-00-0'')" demo_sheet]
    by (simp add: absent_def)
qed

section \<open>Rows and their slots\<close>

lemma requests_rows:
  assumes "i \<in> fst ` set (concat (map (\<lambda>task. map (Pair (fst task)) (sent task)) tasks))"
  shows "\<exists>task\<in>set tasks. fst task = i \<and> sent task \<noteq> []"
proof -
  obtain task x where "task \<in> set tasks" and "x \<in> set (sent task)" and "i = fst task"
    using assms by auto
  then show ?thesis by force
qed

lemma manual_data_empty: "manual_data [] = None"
  by (simp add: manual_data_def)

lemma process_file_columns:
  assumes df: "df = (name, cells) # rest" and ne: "cells \<noteq> []"
  shows "\<exists>out. process_file e df = Inr out \<and>
    get_column (frame out) col_formula = Some (fst (slots e (cas_series (cell_str e) cells))) \<and>
    get_column (frame out) col_weight = Some (snd (slots e (cas_series (cell_str e) cells))) \<and>
    submitted out = submit_loop 0 (cas_series (cell_str e) cells) \<and>
    requests out = concat (map (\<lambda>task. map (Pair (fst task)) (snd (run_task e task)))
      (submit_loop 0 (cas_series (cell_str e) cells)))"
proof -
  have "\<not> df_empty df" using df ne by (simp add: df_empty_def)
  from process_file_nonempty [OF this, of e] show ?thesis
    using df by (auto simp: get_set_column_same get_set_column_other col_names_differ)
qed

lemma cas_series_length: "length (cas_series conv cells) = length cells"
  by (simp add: cas_series_def)

section \<open>Empty identifiers\<close>

text \<open>
  C4. A row whose identifier is the empty string keeps \<open>None\<close> in both of its slots; no
  task is submitted for it and no request is sent for it.
\<close>

theorem empty_identifier_is_skipped:
  assumes df: "df = (name, cells) # rest"
    and i: "i < length cells"
    and blank: "cas_series (cell_str e) cells ! i = []"
  shows "\<exists>out formulas weights. process_file e df = Inr out \<and>
    get_column (frame out) col_formula = Some formulas \<and>
    get_column (frame out) col_weight = Some weights \<and>
    formulas ! i = PyNone \<and> weights ! i = PyNone \<and>
    i \<notin> fst ` set (submitted out) \<and> i \<notin> fst ` set (requests out)"
proof -
  let ?ids = "cas_series (cell_str e) cells"
  have ne: "cells \<noteq> []" using i by auto
  obtain out where out: "process_file e df = Inr out"
    and fs: "get_column (frame out) col_formula = Some (fst (slots e ?ids))"
    and ws: "get_column (frame out) col_weight = Some (snd (slots e ?ids))"
    and sub: "submitted out = submit_loop 0 ?ids"
    and req: "requests out = concat (map (\<lambda>task. map (Pair (fst task)) (snd (run_task e task)))
      (submit_loop 0 ?ids))"
    using process_file_columns [OF df ne, of e] by blast
  have i': "i < length ?ids" using i by (simp add: cas_series_length)
  have slot: "fst (slots e ?ids) ! i = PyNone \<and> snd (slots e ?ids) ! i = PyNone"
    using slots_nth [OF i', of e] blank by simp
  have not_sub: "i \<notin> fst ` set (submit_loop 0 ?ids)"
  proof
    assume "i \<in> fst ` set (submit_loop 0 ?ids)"
    then obtain c where "(i, c) \<in> set (submit_loop 0 ?ids)" by auto
    then show False using blank by (simp add: submit_loop_set)
  qed
  have not_req: "i \<notin> fst ` set (requests out)"
  proof
    assume "i \<in> fst ` set (requests out)"
    then obtain task where "task \<in> set (submit_loop 0 ?ids)" and "fst task = i"
      unfolding req using requests_rows [of i "\<lambda>task. snd (run_task e task)"] by blast
    then show False using not_sub by force
  qed
  show ?thesis
    using out fs ws slot not_sub not_req sub by auto
qed

theorem empty_identifier_is_skipped_witness:
  "demo_sheet = (''CAS No.'', demo_cells) # [] \<and> 1 < length demo_cells \<and>
   cas_series (cell_str demo_env) demo_cells ! 1 = [] \<and>
   (\<exists>out formulas weights. process_file demo_env demo_sheet = Inr out \<and>
    get_column (frame out) col_formula = Some formulas \<and>
    get_column (frame out) col_weight = Some weights \<and>
    formulas ! 1 = PyNone \<and> weights ! 1 = PyNone \<and>
    1 \<notin> fst ` set (submitted out) \<and> 1 \<notin> fst ` set (requests out))"
proof -
  have df: "demo_sheet = (''CAS No.'', demo_cells) # []"
    by (simp add: demo_sheet_def)
  have i: "1 < length demo_cells"
    by (simp add: demo_cells_def)
  have blank: "cas_series (cell_str demo_env) demo_cells ! 1 = []"
    by (simp add: demo_cells_def cas_series_def astype_str_def fillna_def)
  show ?thesis
    using df i blank empty_identifier_is_skipped [OF df i blank] by simp
qed


section \<open>Which rows become tasks\<close>

lemma submit_loop_filter:
  "submit_loop k xs = filter (\<lambda>task. snd task \<noteq> []) (zip [k..<k + length xs] xs)"
proof (induction xs arbitrary: k)
  case Nil
  then show ?case by simp
next
  case (Cons x xs)
  have "k < k + length (x # xs)" by simp
  then have "[k..<k + length (x # xs)] = k # [Suc k..<k + length (x # xs)]"
    by (rule upt_conv_Cons)
  moreover have "k + length (x # xs) = Suc k + length xs" by simp
  ultimately have "[k..<k + length (x # xs)] = k # [Suc k..<Suc k + length xs]"
    by (simp only:)
  then show ?case using Cons.IH [of "Suc k"] by simp
qed

lemma slot_of_task:
  assumes i: "i < length cs" and full: "cs ! i \<noteq> []"
  shows "fst (fetch_cas_info (floats e) (service e i) (cs ! i) manual_data) =
    Inr (fst (slots e cs) ! i, snd (slots e cs) ! i)"
proof -
  obtain r sent where r: "fetch_cas_info (floats e) (service e i) (cs ! i) manual_data = (Inr r, sent)"
    using fetch_cas_info_returns by blast
  then have "future_result (fst (run_task e (i, cs ! i))) = r"
    by (simp add: run_task_def future_result_def)
  then show ?thesis using slots_nth [OF i, of e] full r by simp
qed

text \<open>
  C7, as the code has it. The coordinator does not consult the table: it submits one
  task for every row whose identifier is not empty, and no other. When the identifier
  of a row is a key of the table, its task is among the submitted ones, the task returns
  the stored pair without sending a request, and the pair is recorded in the row's slots.
\<close>

theorem every_nonempty_identifier_is_submitted:
  assumes df: "df = (name, cells) # rest"
    and i: "i < length cells"
  shows "\<exists>out formulas weights. process_file e df = Inr out \<and>
    submitted out =
      filter (\<lambda>task. snd task \<noteq> []) (zip [0..<length cells] (cas_series (cell_str e) cells)) \<and>
    get_column (frame out) col_formula = Some formulas \<and>
    get_column (frame out) col_weight = Some weights \<and>
    (manual_data (cas_series (cell_str e) cells ! i) = Some entry \<longrightarrow>
       (i, cas_series (cell_str e) cells ! i) \<in> set (submitted out) \<and>
       (formulas ! i, weights ! i) = entry \<and> i \<notin> fst ` set (requests out))"
proof -
  let ?ids = "cas_series (cell_str e) cells"
  have ne: "cells \<noteq> []" using i by auto
  obtain out where out: "process_file e df = Inr out"
    and fs: "get_column (frame out) col_formula = Some (fst (slots e ?ids))"
    and ws: "get_column (frame out) col_weight = Some (snd (slots e ?ids))"
    and sub: "submitted out = submit_loop 0 ?ids"
    and req: "requests out = concat (map (\<lambda>task. map (Pair (fst task)) (snd (run_task e task)))
      (submit_loop 0 ?ids))"
    using process_file_columns [OF df ne, of e] by blast
  have i': "i < length ?ids" using i by (simp add: cas_series_length)
  have tasks: "submitted out = filter (\<lambda>task. snd task \<noteq> []) (zip [0..<length cells] ?ids)"
    using sub submit_loop_filter [of 0 ?ids] by (simp add: cas_series_length)
  have hit: "(i, ?ids ! i) \<in> set (submitted out) \<and>
      (fst (slots e ?ids) ! i, snd (slots e ?ids) ! i) = entry \<and> i \<notin> fst ` set (requests out)"
    if entry: "manual_data (?ids ! i) = Some entry"
  proof -
    have full: "?ids ! i \<noteq> []" using entry manual_data_empty by auto
    have run: "run_task e (i, ?ids ! i) = (Inr entry, [])"
      using entry by (simp add: run_task_def fetch_cas_info_def)
    have a: "(i, ?ids ! i) \<in> set (submitted out)"
      using sub full i' by (simp add: submit_loop_set)
    have b: "(fst (slots e ?ids) ! i, snd (slots e ?ids) ! i) = entry"
      using slots_nth [OF i', of e] full run by (simp add: future_result_def)
    have c: "i \<notin> fst ` set (requests out)"
    proof
      assume "i \<in> fst ` set (requests out)"
      then obtain task where t: "task \<in> set (submit_loop 0 ?ids)" and ti: "fst task = i"
        and sent: "snd (run_task e task) \<noteq> []"
        unfolding req using requests_rows [of i "\<lambda>task. snd (run_task e task)"] by blast
      obtain c where c: "task = (i, c)" using ti by (cases task) simp
      then have "c = ?ids ! i" using t by (simp add: submit_loop_set)
      then show False using sent run c by simp
    qed
    show ?thesis using a b c by simp
  qed
  show ?thesis
    using out tasks fs ws hit by auto
qed

theorem every_nonempty_identifier_is_submitted_witness:
  "demo_sheet = (''CAS No.'', demo_cells) # [] \<and> 0 < length demo_cells \<and>
   manual_data (cas_series (cell_str demo_env) demo_cells ! 0) =
     Some (PyStr ''Ca2Fe5H2O24Si8'', PyFloat (Fl 970.1)) \<and>
   (\<exists>out formulas weights. process_file demo_env demo_sheet = Inr out \<and>
    submitted out = filter (\<lambda>task. snd task \<noteq> [])
      (zip [0..<length demo_cells] (cas_series (cell_str demo_env) demo_cells)) \<and>
    get_column (frame out) col_formula = Some formulas \<and>
    get_column (frame out) col_weight = Some weights \<and>
    (0, cas_series (cell_str demo_env) demo_cells ! 0) \<in> set (submitted out) \<and>
    (formulas ! 0, weights ! 0) = (PyStr ''Ca2Fe5H2O24Si8'', PyFloat (Fl 970.1)) \<and>
    0 \<notin> fst ` set (requests out))"
proof -
  have df: "demo_sheet = (''CAS No.'', demo_cells) # []"
    by (simp add: demo_sheet_def)
  have i: "0 < length demo_cells"
    by (simp add: demo_cells_def)
  have id0: "cas_series (cell_str demo_env) demo_cells ! 0 = ''77536-66-4''"
    by (simp add: demo_cells_def cas_series_def astype_str_def fillna_def)
  have hit: "manual_data (cas_series (cell_str demo_env) demo_cells ! 0) =
      Some (PyStr ''Ca2Fe5H2O24Si8'', PyFloat (Fl 970.1))"
    unfolding id0 by (simp add: manual_data_def)
  show ?thesis
    using df i hit
      every_nonempty_identifier_is_submitted [OF df i, of demo_env
        "(PyStr ''Ca2Fe5H2O24Si8'', PyFloat (Fl 970.1))"]
    by simp
qed

text \<open>
  The run on the identifiers \<open>77536-66-4\<close>, the empty string and \<open>0000-00-0\<close> with a
  service that is down: the first identifier is a key of the table and a task is
  submitted for it all the same.
\<close>

theorem override_hit_is_submitted_counterexample:
  "manual_data ''77536-66-4'' = Some (PyStr ''Ca2Fe5H2O24Si8'', PyFloat (Fl 970.1)) \<and>
   process_file demo_env demo_sheet =
     Inr \<lparr>frame =
            [(''CAS No.'', [PyStr ''77536-66-4'', PyStr [], PyStr ''0000-00-0'']),
             (col_formula, [PyStr ''Ca2Fe5H2O24Si8'', PyNone, PyNone]),
             (col_weight, [PyFloat (Fl 970.1), PyNone, PyNone])],
          submitted = [(0, ''77536-66-4''), (2, ''0000-00-0'')],
          requests = [(2, url_of ''0000-00-0''), (2, url_of ''0000-00-0''), (2, url_of ''0000-00-0'')]\<rparr>"
proof -
  have hit: "manual_data ''77536-66-4'' = Some (PyStr ''Ca2Fe5H2O24Si8'', PyFloat (Fl 970.1))"
    by (simp add: manual_data_def)
  have miss: "manual_data ''0000-00-0'' = None"
    by (simp add: manual_data_def)
  have ids: "cas_series (cell_str demo_env) [PyStr ''77536-66-4'', PyStr [], PyStr ''0000-00-0''] =
      [''77536-66-4'', [], ''0000-00-0'']"
    by (simp add: cas_series_def astype_str_def fillna_def)
  have t0: "run_task demo_env (0, ''77536-66-4'') =
      (Inr (PyStr ''Ca2Fe5H2O24Si8'', PyFloat (Fl 970.1)), [])"
    using hit by (simp add: run_task_def fetch_cas_info_def)
  have t2: "run_task demo_env (2, ''0000-00-0'') =
      (Inr (PyNone, PyNone), [url_of ''0000-00-0'', url_of ''0000-00-0'', url_of ''0000-00-0''])"
    using miss
    by (simp add: run_task_def fetch_cas_info_def numeral_3_eq_3 demo_env_def demo_service_def
        service_down_def attempt_def first_record_def)
  have order: "as_completed demo_env [(0, ''77536-66-4''), (2, ''0000-00-0'')] =
      [(2, ''0000-00-0''), (0, ''77536-66-4'')]"
    by (simp add: as_completed_def demo_env_def demo_finished_at_def)
  have sub: "submit_loop 0 [''77536-66-4'', [], ''0000-00-0''] =
      [(0, ''77536-66-4''), (2, ''0000-00-0'')]"
    by simp
  have completed: "map (\<lambda>task. (fst task, fst (run_task demo_env task)))
      [(2, ''0000-00-0''), (0, ''77536-66-4'')] =
      [(2, Inr (PyNone, PyNone)), (0, Inr (PyStr ''Ca2Fe5H2O24Si8'', PyFloat (Fl 970.1)))]"
    by (simp add: t0 t2)
  have sl: "slots demo_env [''77536-66-4'', [], ''0000-00-0''] =
      ([PyStr ''Ca2Fe5H2O24Si8'', PyNone, PyNone], [PyFloat (Fl 970.1), PyNone, PyNone])"
    unfolding slots_def sub order completed
    by (simp add: future_result_def numeral_3_eq_3 numeral_2_eq_2)
  have "process_file demo_env demo_sheet =
     Inr \<lparr>frame =
            [(''CAS No.'', [PyStr ''77536-66-4'', PyStr [], PyStr ''0000-00-0'']),
             (col_formula, [PyStr ''Ca2Fe5H2O24Si8'', PyNone, PyNone]),
             (col_weight, [PyFloat (Fl 970.1), PyNone, PyNone])],
          submitted = [(0, ''77536-66-4''), (2, ''0000-00-0'')],
          requests = [(2, url_of ''0000-00-0''), (2, url_of ''0000-00-0''), (2, url_of ''0000-00-0'')]\<rparr>"
    unfolding process_file_def demo_sheet_def
    by (simp add: df_empty_def ids sl sub t0 t2 demo_cells_def col_formula_def col_weight_def
        del: submit_loop.simps)
  then show ?thesis using hit by simp
qed

section \<open>The two result columns\<close>

text \<open>
  C2, as the code has it. For a frame with at least one row, \<open>process_file\<close> returns a
  frame whose formula column and weight column both have one slot per row, and the slots
  of row \<open>i\<close> hold \<open>None\<close> when the identifier of the row is empty and otherwise the pair
  that \<open>fetch_cas_info\<close> returned for that identifier.
\<close>

theorem columns_have_one_slot_per_row:
  assumes df: "df = (name, cells) # rest"
    and ne: "cells \<noteq> []"
  shows "\<exists>out formulas weights. process_file e df = Inr out \<and>
    get_column (frame out) col_formula = Some formulas \<and>
    get_column (frame out) col_weight = Some weights \<and>
    length formulas = length cells \<and> length weights = length cells \<and>
    (i < length cells \<longrightarrow>
       (if cas_series (cell_str e) cells ! i = [] then (formulas ! i, weights ! i) = (PyNone, PyNone)
        else fst (fetch_cas_info (floats e) (service e i) (cas_series (cell_str e) cells ! i)
               manual_data) = Inr (formulas ! i, weights ! i)))"
proof -
  let ?ids = "cas_series (cell_str e) cells"
  obtain out where out: "process_file e df = Inr out"
    and fs: "get_column (frame out) col_formula = Some (fst (slots e ?ids))"
    and ws: "get_column (frame out) col_weight = Some (snd (slots e ?ids))"
    using process_file_columns [OF df ne, of e] by blast
  have len: "length (fst (slots e ?ids)) = length cells \<and> length (snd (slots e ?ids)) = length cells"
    using slots_length [of e ?ids] by (simp add: cas_series_length)
  have slot: "if ?ids ! i = [] then (fst (slots e ?ids) ! i, snd (slots e ?ids) ! i) = (PyNone, PyNone)
      else fst (fetch_cas_info (floats e) (service e i) (?ids ! i) manual_data) =
        Inr (fst (slots e ?ids) ! i, snd (slots e ?ids) ! i)"
    if i: "i < length cells"
  proof -
    have i': "i < length ?ids" using i by (simp add: cas_series_length)
    show ?thesis
      using slots_nth [OF i', of e] slot_of_task [OF i', of e] by simp
  qed
  show ?thesis
    using out fs ws len slot by auto
qed

theorem columns_have_one_slot_per_row_witness:
  "demo_sheet = (''CAS No.'', demo_cells) # [] \<and> demo_cells \<noteq> [] \<and> 2 < length demo_cells \<and>
   cas_series (cell_str demo_env) demo_cells ! 2 = ''0000-00-0'' \<and>
   (\<exists>out formulas weights. process_file demo_env demo_sheet = Inr out \<and>
    get_column (frame out) col_formula = Some formulas \<and>
    get_column (frame out) col_weight = Some weights \<and>
    length formulas = length demo_cells \<and> length weights = length demo_cells \<and>
    fst (fetch_cas_info (floats demo_env) (service demo_env 2) ''0000-00-0'' manual_data) =
      Inr (formulas ! 2, weights ! 2))"
proof -
  have df: "demo_sheet = (''CAS No.'', demo_cells) # []"
    by (simp add: demo_sheet_def)
  have ne: "demo_cells \<noteq> []"
    by (simp add: demo_cells_def)
  have i: "2 < length demo_cells"
    by (simp add: demo_cells_def)
  have id2: "cas_series (cell_str demo_env) demo_cells ! 2 = ''0000-00-0''"
    by (simp add: demo_cells_def cas_series_def astype_str_def fillna_def)
  show ?thesis
    using df ne i id2 columns_have_one_slot_per_row [OF df ne, of demo_env 2] by simp
qed

text \<open>
  For a sheet with a header and no row the returned frame has neither column: there is
  no formula sequence and no weight sequence of length zero.
\<close>

theorem empty_frame_has_no_columns_counterexample:
  "process_file demo_env header_only = Inr \<lparr>frame = header_only, submitted = [], requests = []\<rparr> \<and>
   get_column header_only col_formula = None \<and> get_column header_only col_weight = None"
  by (simp add: process_file_def df_empty_def header_only_def col_formula_def col_weight_def)

section \<open>An empty sheet\<close>

text \<open>
  C10. When the frame read from the file is empty (no row, or no column),
  \<open>process_file\<close> returns that frame as it is, without the two result columns, submits
  no task and sends no request.
\<close>

theorem empty_frame_is_returned_unchanged:
  "df_empty df \<Longrightarrow> process_file e df = Inr \<lparr>frame = df, submitted = [], requests = []\<rparr>"
  by (simp add: process_file_def)

theorem empty_frame_is_returned_unchanged_witness:
  "df_empty [(''CAS No.'', []), (''Name'', [])] \<and>
   process_file demo_env [(''CAS No.'', []), (''Name'', [])] =
     Inr \<lparr>frame = [(''CAS No.'', []), (''Name'', [])], submitted = [], requests = []\<rparr>"
proof -
  have empty: "df_empty [(''CAS No.'', []), (''Name'', [])]"
    by (simp add: df_empty_def)
  show ?thesis
    using empty empty_frame_is_returned_unchanged [OF empty, of demo_env] by simp
qed

section \<open>From cells to identifiers\<close>




end
